theory Spec2Isabelle
  imports Main "HOL-Library.Sublist"
begin

section \<open>JavaScript values, objects and broker messages\<close>

text \<open>
  Modelled from the spec: the enum \<open>UpdateScope\<close> of \<open>./enum/update-scope\<close> is not among
  the sources; section 3 of the specification lists its four tags.
\<close>

datatype UpdateScope = TITLE | DESCRIPTION | STATUS | COMMENT

text \<open>
  The values that occur in request bodies and in event payloads: strings, and the array
  of scopes that \<open>update\<close> and \<open>addComment\<close> build.
\<close>

datatype jsval = JStr string | JScopes "UpdateScope list"

text \<open>
  A JavaScript object is its own properties in insertion order. \<open>has_key k ob\<close> is the
  expression \<open>k in ob\<close>. Assigning a property keeps the position of a key that is
  already there and appends a new key; \<open>spread src acc\<close> is \<open>{ ...acc, ...src }\<close>,
  so that an object literal is a sequence of spreads onto the empty object.
\<close>

type_synonym obj = "(string \<times> jsval) list"

definition has_key :: "string \<Rightarrow> obj \<Rightarrow> bool" where
  "has_key k ob = (k \<in> set (map fst ob))"

fun set_prop :: "string \<Rightarrow> jsval \<Rightarrow> obj \<Rightarrow> obj" where
  "set_prop k v [] = [(k, v)]"
| "set_prop k v ((k', v') # ps) =
     (if k' = k then (k, v) # ps else (k', v') # set_prop k v ps)"

definition spread :: "obj \<Rightarrow> obj \<Rightarrow> obj" where
  "spread src acc = foldl (\<lambda>a (k, v). set_prop k v a) acc src"

record message =
  exchange :: string
  routingKey :: string
  payload :: obj

section \<open>Entities and request bodies\<close>

text \<open>
  Modelled from the spec: the entity classes \<open>Issue\<close> and \<open>Comment\<close> and the classes
  \<open>CreateIssueDto\<close>, \<open>UpdateIssueDto\<close> and \<open>CreateCommentDto\<close> are not among the
  sources. Section 3 of the specification gives the columns of an issue (the one-to-many
  relation \<open>comments\<close> is loaded on request, see \<open>IssueWithComments\<close>); section 8 gives
  the fields of a valid create input (title, description, projectId). A comment carries
  its generated id, the fields of its input and the issue it belongs to. The partial
  update input and the comment input are plain objects: the service only tests them for
  keys and spreads them.
\<close>

record Issue =
  id_Issue :: string
  title :: string
  description :: string
  status :: string
  projectId :: string

record CreateIssueDto =
  title_dto :: string
  description_dto :: string
  projectId_dto :: string

type_synonym UpdateIssueDto = obj

type_synonym CreateCommentDto = obj

record Comment =
  id_Comment :: string
  body :: obj
  issue :: Issue

record IssueWithComments = Issue +
  comments_rel :: "Comment list"

text \<open>
  The result of a delete, as the repository library declares it: the number of affected
  rows, which is absent when the driver does not report it.
\<close>

record DeleteResult =
  affected :: "nat option"

text \<open>The own properties of a create input, in declaration order.\<close>

definition props :: "CreateIssueDto \<Rightarrow> obj" where
  "props dto =
     [(''title'', JStr (title_dto dto)),
      (''description'', JStr (description_dto dto)),
      (''projectId'', JStr (projectId_dto dto))]"

section \<open>Errors, the state and asynchronous computations\<close>

datatype HttpStatus = NOT_FOUND | INTERNAL_SERVER_ERROR

text \<open>
  The calls the service makes on its three injected collaborators: the issue repository,
  the comment repository and the broker connection (a publish is identified by its
  exchange and routing key).
\<close>

datatype call =
    IssueSave | IssueFind | IssueGetMany | IssueFindOne | IssueUpdate | IssueDelete
  | CommentSave | CommentFind
  | Publish string string

text \<open>
  An error is either an \<open>HttpException\<close> thrown by the service itself, or the rejection of
  a collaborator's call, which the service did not create.
\<close>

datatype error = HttpException string HttpStatus | Rejected call

text \<open>
  The state the service acts on: the two tables, the messages the broker has accepted
  (oldest first) and what was written with \<open>console.error\<close>.
\<close>

record world =
  issues :: "Issue list"
  comments :: "Comment list"
  published :: "message list"
  console :: "error list"

text \<open>
  What the collaborators decide during one request: which calls they reject, the
  identifier the store generates for a new row, the status it gives a new issue, and the
  number of affected rows its driver reports for a delete (none when the driver reports
  nothing, zero when it found no row to delete).
\<close>

record env =
  fails :: "call \<Rightarrow> bool"
  generated_id :: string
  default_status :: string
  delete_affected :: "nat option"

text \<open>
  An asynchronous computation runs on the state and either resolves with a value or
  rejects with an error; the state it leaves is kept in both cases (nothing is rolled
  back). \<open>await m k\<close> is \<open>const x = await m; k x\<close>.
\<close>

type_synonym 'a async = "world \<Rightarrow> (error + 'a) \<times> world"

definition resolve :: "'a \<Rightarrow> 'a async" where
  "resolve x w = (Inr x, w)"

definition throw :: "error \<Rightarrow> 'a async" where
  "throw e w = (Inl e, w)"

definition await :: "'a async \<Rightarrow> ('a \<Rightarrow> 'b async) \<Rightarrow> 'b async" where
  "await m k w = (case m w of (Inl e, w') \<Rightarrow> (Inl e, w') | (Inr x, w') \<Rightarrow> k x w')"

definition try_catch :: "'a async \<Rightarrow> (error \<Rightarrow> 'a async) \<Rightarrow> 'a async" where
  "try_catch m h w = (case m w of (Inl e, w') \<Rightarrow> h e w' | (Inr x, w') \<Rightarrow> (Inr x, w'))"

definition console_error :: "error \<Rightarrow> unit async" where
  "console_error e w = (Inr (), w\<lparr>console := console w @ [e]\<rparr>)"

text \<open>
  A promise is an object, and every object is truthy, whatever the promise settles to.
\<close>

definition truthy_promise :: "'a async \<Rightarrow> bool" where
  "truthy_promise p = True"

section \<open>The collaborators\<close>

text \<open>
  The repositories and the broker connection are libraries, not code of the service. They
  are modelled as an in-memory store and a message log. A call the collaborator rejects
  has no effect and rejects with \<open>Rejected\<close>.
\<close>

definition external :: "env \<Rightarrow> call \<Rightarrow> 'a async \<Rightarrow> 'a async" where
  "external e c m = (if fails e c then throw (Rejected c) else m)"

text \<open>\<open>issueRepository.create\<close>: an entity from the input, not yet stored, with no id.\<close>

definition Repository_create :: "CreateIssueDto \<Rightarrow> Issue" where
  "Repository_create dto =
     \<lparr>id_Issue = [], title = title_dto dto, description = description_dto dto,
      status = [], projectId = projectId_dto dto\<rparr>"

text \<open>\<open>issueRepository.save\<close>: inserts the row; the entity gets its generated id.\<close>

definition Repository_save :: "env \<Rightarrow> Issue \<Rightarrow> Issue async" where
  "Repository_save e entity =
     external e IssueSave
       (\<lambda>w. let saved = entity\<lparr>id_Issue := generated_id e, status := default_status e\<rparr>
            in (Inr saved, w\<lparr>issues := issues w @ [saved]\<rparr>))"

definition Repository_find :: "env \<Rightarrow> Issue list async" where
  "Repository_find e = external e IssueFind (\<lambda>w. (Inr (issues w), w))"

definition Repository_getMany :: "env \<Rightarrow> string \<Rightarrow> Issue list async" where
  "Repository_getMany e pid =
     external e IssueGetMany (\<lambda>w. (Inr (filter (\<lambda>i. projectId i = pid) (issues w)), w))"

definition Repository_findOne :: "env \<Rightarrow> string \<Rightarrow> Issue option async" where
  "Repository_findOne e issueId =
     external e IssueFindOne (\<lambda>w. (Inr (find (\<lambda>i. id_Issue i = issueId) (issues w)), w))"

text \<open>\<open>findOne\<close> with \<open>relations: ['comments']\<close>: the issue with its comments loaded.\<close>

definition Repository_findOne_relations ::
  "env \<Rightarrow> string \<Rightarrow> IssueWithComments option async" where
  "Repository_findOne_relations e issueId =
     external e IssueFindOne
       (\<lambda>w. (Inr (map_option
                (\<lambda>i. Issue.extend i
                   (IssueWithComments.fields
                      (filter (\<lambda>c. id_Issue (issue c) = issueId) (comments w))))
                (find (\<lambda>i. id_Issue i = issueId) (issues w))), w))"

text \<open>
  \<open>issueRepository.update\<close>: sets the given columns on the rows with the given id. The
  columns are the properties of the entity (section 3 of the specification), the id
  among them, so that a value set with the key \<open>id\<close> gives the row another id.
\<close>

definition columns :: "string list" where
  "columns = [''id'', ''title'', ''description'', ''status'', ''projectId'']"

fun apply_partial :: "UpdateIssueDto \<Rightarrow> Issue \<Rightarrow> Issue" where
  "apply_partial [] i = i"
| "apply_partial ((k, v) # ps) i =
     apply_partial ps
       (case v of
          JStr s \<Rightarrow>
            (if k = ''id'' then i\<lparr>id_Issue := s\<rparr>
             else if k = ''title'' then i\<lparr>title := s\<rparr>
             else if k = ''description'' then i\<lparr>description := s\<rparr>
             else if k = ''status'' then i\<lparr>status := s\<rparr>
             else if k = ''projectId'' then i\<lparr>projectId := s\<rparr>
             else i)
        | JScopes _ \<Rightarrow> i)"

text \<open>
  The repository rejects a value set it cannot write: the empty value set, a key that is
  not a column, a value that is not a string. It also rejects an update that would give
  two rows of a table with unique ids the same id. A rejected update changes nothing.
\<close>

definition writable :: "UpdateIssueDto \<Rightarrow> bool" where
  "writable dto =
     (dto \<noteq> [] \<and>
      list_all (\<lambda>(k, v). k \<in> set columns \<and> (case v of JStr _ \<Rightarrow> True | JScopes _ \<Rightarrow> False))
        dto)"

definition keeps_ids_unique :: "Issue list \<Rightarrow> Issue list \<Rightarrow> bool" where
  "keeps_ids_unique old_rows new_rows =
     (if distinct (map id_Issue old_rows) then distinct (map id_Issue new_rows) else True)"

definition Repository_update :: "env \<Rightarrow> string \<Rightarrow> UpdateIssueDto \<Rightarrow> unit async" where
  "Repository_update e issueId dto =
     external e IssueUpdate
       (\<lambda>w. let rows = map (\<lambda>i. if id_Issue i = issueId then apply_partial dto i else i)
                           (issues w)
            in if writable dto \<and> keeps_ids_unique (issues w) rows
               then (Inr (), w\<lparr>issues := rows\<rparr>)
               else throw (Rejected IssueUpdate) w)"

text \<open>
  \<open>issueRepository.delete\<close>: deletes the rows with the given id. The number of affected
  rows in the result is what the driver reports.
\<close>

definition Repository_delete :: "env \<Rightarrow> string \<Rightarrow> DeleteResult async" where
  "Repository_delete e issueId =
     external e IssueDelete
       (\<lambda>w. (Inr \<lparr>affected = delete_affected e\<rparr>,
             w\<lparr>issues := filter (\<lambda>i. id_Issue i \<noteq> issueId) (issues w)\<rparr>))"

definition Repository_create_comment :: "CreateCommentDto \<Rightarrow> Issue \<Rightarrow> Comment" where
  "Repository_create_comment dto i = \<lparr>id_Comment = [], body = dto, issue = i\<rparr>"

definition Repository_save_comment :: "env \<Rightarrow> Comment \<Rightarrow> Comment async" where
  "Repository_save_comment e entity =
     external e CommentSave
       (\<lambda>w. let saved = entity\<lparr>id_Comment := generated_id e\<rparr>
            in (Inr saved, w\<lparr>comments := comments w @ [saved]\<rparr>))"

definition Repository_find_comments :: "env \<Rightarrow> Comment list async" where
  "Repository_find_comments e = external e CommentFind (\<lambda>w. (Inr (comments w), w))"

text \<open>\<open>amqpConnection.publish\<close>: the broker accepts the message.\<close>

definition publish :: "env \<Rightarrow> string \<Rightarrow> string \<Rightarrow> obj \<Rightarrow> unit async" where
  "publish e ex rk pl =
     external e (Publish ex rk)
       (\<lambda>w. (Inr (), w\<lparr>published := published w @
                         [\<lparr>exchange = ex, routingKey = rk, payload = pl\<rparr>]\<rparr>))"

section \<open>The issue service\<close>

text \<open>\<open>create\<close>, lines 24 to 49: the save and both publishes are inside the \<open>try\<close>.\<close>

definition create :: "env \<Rightarrow> CreateIssueDto \<Rightarrow> Issue async" where
  "create e createIssueDto =
     (let newIssue = Repository_create createIssueDto in
      try_catch
        (await (Repository_save e newIssue) (\<lambda>newIssue.
         await (publish e ''direct-exchange'' ''project.issue.created''
                  (spread [(''uuid'', JStr (id_Issue newIssue))] [])) (\<lambda>_.
         await (publish e ''news'' ''news.issue.create''
                  (spread [(''issueId'', JStr (id_Issue newIssue))]
                     (spread (props createIssueDto) []))) (\<lambda>_.
         resolve newIssue))))
        (\<lambda>err.
         await (console_error err) (\<lambda>_.
         throw (HttpException ''Could not save issue'' INTERNAL_SERVER_ERROR))))"

definition findAll :: "env \<Rightarrow> Issue list async" where
  "findAll e = Repository_find e"

definition findAllForProject :: "env \<Rightarrow> string \<Rightarrow> Issue list async" where
  "findAllForProject e pid = Repository_getMany e pid"

definition findOne :: "env \<Rightarrow> string \<Rightarrow> Issue async" where
  "findOne e issueId =
     await (Repository_findOne e issueId) (\<lambda>found.
       case found of
         Some i \<Rightarrow> resolve i
       | None \<Rightarrow> throw (HttpException ''Issue not found'' NOT_FOUND))"

text \<open>The scopes of \<open>update\<close>, lines 80 to 90: three tests, three pushes, in this order.\<close>

definition updateScopes :: "UpdateIssueDto \<Rightarrow> UpdateScope list" where
  "updateScopes updateIssueDto =
     (let scopes = [];
          scopes = (if has_key ''title'' updateIssueDto then scopes @ [TITLE] else scopes);
          scopes = (if has_key ''description'' updateIssueDto
                    then scopes @ [DESCRIPTION] else scopes);
          scopes = (if has_key ''status'' updateIssueDto then scopes @ [STATUS] else scopes)
      in scopes)"

definition update :: "env \<Rightarrow> string \<Rightarrow> UpdateIssueDto \<Rightarrow> Issue async" where
  "update e issueId updateIssueDto =
     await (Repository_update e issueId updateIssueDto) (\<lambda>_.
     await (Repository_findOne e issueId) (\<lambda>updatedIssue.
       case updatedIssue of
         Some updated \<Rightarrow>
           await (publish e ''news'' ''news.issue.update''
                    (spread [(''projectId'', JStr (projectId updated)),
                             (''issueId'', JStr (id_Issue updated)),
                             (''updateScopes'', JScopes (updateScopes updateIssueDto))]
                       (spread updateIssueDto []))) (\<lambda>_.
           resolve updated)
       | None \<Rightarrow> throw (HttpException ''Issue not found'' NOT_FOUND)))"

text \<open>
  \<open>remove\<close>, lines 104 to 125. \<open>falsy n\<close> is \<open>!n\<close> for a number that may be absent:
  true of zero and of the absent number.
\<close>

definition falsy :: "nat option \<Rightarrow> bool" where
  "falsy n = (case n of None \<Rightarrow> True | Some m \<Rightarrow> m = 0)"

definition remove :: "env \<Rightarrow> string \<Rightarrow> unit async" where
  "remove e issueId =
     await (findOne e issueId) (\<lambda>i.
     await (Repository_delete e issueId) (\<lambda>deleted.
     if falsy (affected deleted) then throw (HttpException ''Post not found'' NOT_FOUND)
     else
       await (publish e ''direct-exchange'' ''project.issue.deleted''
                (spread [(''uuid'', JStr issueId)] [])) (\<lambda>_.
       publish e ''news'' ''news.issue.delete''
         (spread [(''title'', JStr (title i)),
                  (''description'', JStr (description i)),
                  (''projectId'', JStr (projectId i)),
                  (''issueId'', JStr (id_Issue i))] []))))"

definition addComment :: "env \<Rightarrow> string \<Rightarrow> CreateCommentDto \<Rightarrow> Comment async" where
  "addComment e issueId createCommentDto =
     await (findOne e issueId) (\<lambda>i.
     let newComment = Repository_create_comment createCommentDto i in
     await (Repository_save_comment e newComment) (\<lambda>newComment.
     await (publish e ''news'' ''news.issue.update''
              (spread createCommentDto
                 (spread [(''issueId'', JStr (id_Issue i)),
                          (''projectId'', JStr (projectId i)),
                          (''updateScopes'', JScopes [COMMENT])] []))) (\<lambda>_.
     resolve newComment)))"

text \<open>
  \<open>findAllCommentsForIssue\<close>, lines 149 to 159: the repository call is not awaited, so
  \<open>issue\<close> is the promise itself. The test is on the promise, and an \<open>async\<close> function
  that returns a promise settles as that promise does: with the issue, or with
  \<open>undefined\<close> (\<open>None\<close>) when there is none.
\<close>

definition findAllCommentsForIssue :: "env \<Rightarrow> string \<Rightarrow> IssueWithComments option async" where
  "findAllCommentsForIssue e issueId =
     (let issue_promise = Repository_findOne_relations e issueId in
      if truthy_promise issue_promise then issue_promise
      else throw (HttpException ''Issue not found'' NOT_FOUND))"

definition findAllComments :: "env \<Rightarrow> Comment list async" where
  "findAllComments e = Repository_find_comments e"

section \<open>Sample data\<close>

text \<open>
  Concrete inputs on which the theorems below are instantiated: collaborators that accept
  every call and report one deleted row, collaborators that report no deleted row,
  collaborators whose broker rejects the first publish of \<open>create\<close>, the
  empty state, the create input of the specification's scenario, the issue it yields and
  the state that holds this issue.
\<close>

definition env_ok :: env where
  "env_ok = \<lparr>fails = (\<lambda>c. False), generated_id = ''id-1'', default_status = ''OPEN'',
              delete_affected = Some 1\<rparr>"

definition env_zero_affected :: env where
  "env_zero_affected = \<lparr>fails = (\<lambda>c. False), generated_id = ''id-1'',
                         default_status = ''OPEN'', delete_affected = Some 0\<rparr>"

definition env_publish_rejected :: env where
  "env_publish_rejected =
     \<lparr>fails = (\<lambda>c. c = Publish ''direct-exchange'' ''project.issue.created''),
      generated_id = ''id-1'', default_status = ''OPEN'', delete_affected = Some 1\<rparr>"

definition world_empty :: world where
  "world_empty = \<lparr>issues = [], comments = [], published = [], console = []\<rparr>"

definition bug_a :: CreateIssueDto where
  "bug_a = \<lparr>title_dto = ''Bug A'', description_dto = ''desc'', projectId_dto = ''P1''\<rparr>"

definition issue_a :: Issue where
  "issue_a = \<lparr>id_Issue = ''id-1'', title = ''Bug A'', description = ''desc'',
              status = ''OPEN'', projectId = ''P1''\<rparr>"

definition world_a :: world where
  "world_a = \<lparr>issues = [issue_a], comments = [], published = [], console = []\<rparr>"

section \<open>What each operation does, call by call\<close>

lemmas async_defs =
  await_def resolve_def throw_def try_catch_def console_error_def external_def

lemmas repo_defs =
  Repository_create_def Repository_save_def Repository_find_def Repository_getMany_def
  Repository_findOne_def Repository_findOne_relations_def Repository_update_def
  Repository_delete_def Repository_create_comment_def Repository_save_comment_def
  Repository_find_comments_def publish_def

lemmas sample_defs =
  env_ok_def env_zero_affected_def env_publish_rejected_def world_empty_def bug_a_def
  issue_a_def world_a_def

text \<open>
  \<open>create\<close> has four outcomes: the save is rejected; the first publish is rejected (the row
  is already stored); the second publish is rejected (the row is stored and the first
  message is out); or all three calls are accepted.
\<close>

lemma create_unfold:
  "create e dto w =
    (let saved = \<lparr>id_Issue = generated_id e, title = title_dto dto,
                  description = description_dto dto, status = default_status e,
                  projectId = projectId_dto dto\<rparr>;
         created = \<lparr>exchange = ''direct-exchange'', routingKey = ''project.issue.created'',
                    payload = [(''uuid'', JStr (generated_id e))]\<rparr>;
         news = \<lparr>exchange = ''news'', routingKey = ''news.issue.create'',
                 payload = [(''title'', JStr (title_dto dto)),
                            (''description'', JStr (description_dto dto)),
                            (''projectId'', JStr (projectId_dto dto)),
                            (''issueId'', JStr (generated_id e))]\<rparr>;
         internal = HttpException ''Could not save issue'' INTERNAL_SERVER_ERROR
     in
     if fails e IssueSave then
       (Inl internal, w\<lparr>console := console w @ [Rejected IssueSave]\<rparr>)
     else if fails e (Publish ''direct-exchange'' ''project.issue.created'') then
       (Inl internal,
        w\<lparr>issues := issues w @ [saved],
          console := console w @
            [Rejected (Publish ''direct-exchange'' ''project.issue.created'')]\<rparr>)
     else if fails e (Publish ''news'' ''news.issue.create'') then
       (Inl internal,
        w\<lparr>issues := issues w @ [saved],
          published := published w @ [created],
          console := console w @ [Rejected (Publish ''news'' ''news.issue.create'')]\<rparr>)
     else
       (Inr saved,
        w\<lparr>issues := issues w @ [saved], published := published w @ [created, news]\<rparr>))"
  by (simp add: create_def async_defs repo_defs spread_def props_def Let_def)

section \<open>Facts about the store and about objects\<close>

lemma find_filter_other:
  "find (\<lambda>i. id_Issue i = k) (filter (\<lambda>i. id_Issue i \<noteq> k) xs) = None"
  by (induction xs) auto

lemma find_Some_mem:
  "find (\<lambda>i. id_Issue i = k) xs = Some i \<Longrightarrow> i \<in> set xs \<and> id_Issue i = k"
  by (induction xs) (auto split: if_splits)

lemma map_of_set_prop: "map_of (set_prop k v ob) = (map_of ob)(k \<mapsto> v)"
  by (induction ob) auto

lemma findOne_unfold:
  "findOne e k w =
    (if fails e IssueFindOne then (Inl (Rejected IssueFindOne), w)
     else case find (\<lambda>i. id_Issue i = k) (issues w) of
            Some i \<Rightarrow> (Inr i, w)
          | None \<Rightarrow> (Inl (HttpException ''Issue not found'' NOT_FOUND), w))"
  by (simp add: findOne_def async_defs repo_defs split: option.splits)

lemma updateScopes_unfold:
  "updateScopes dto =
     (if has_key ''title'' dto then [TITLE] else []) @
     (if has_key ''description'' dto then [DESCRIPTION] else []) @
     (if has_key ''status'' dto then [STATUS] else [])"
  by (simp add: updateScopes_def Let_def)

text \<open>
  The repository's update either rejects and leaves the state as it was, or accepts and
  changes the issue table only; the empty value set is always rejected.
\<close>

lemma Repository_update_rejected:
  assumes "Repository_update e k dto w = (Inl err, w1)"
  shows "w1 = w \<and> err = Rejected IssueUpdate"
  using assms
  by (auto simp add: Repository_update_def external_def throw_def Let_def split: if_splits)

lemma Repository_update_accepted:
  assumes "Repository_update e k dto w = (Inr u, w1)"
  shows "published w1 = published w \<and> comments w1 = comments w \<and> console w1 = console w
       \<and> writable dto \<and> \<not> fails e IssueUpdate"
  using assms
  by (auto simp add: Repository_update_def external_def throw_def Let_def split: if_splits)

lemma Repository_update_empty:
  "Repository_update e k [] w = (Inl (Rejected IssueUpdate), w)"
  by (simp add: Repository_update_def external_def throw_def writable_def Let_def)

lemma update_unfold:
  "update e k dto w =
    (case Repository_update e k dto w of
       (Inl err, w1) \<Rightarrow> (Inl err, w1)
     | (Inr u, w1) \<Rightarrow>
         if fails e IssueFindOne then (Inl (Rejected IssueFindOne), w1)
         else case find (\<lambda>i. id_Issue i = k) (issues w1) of
                None \<Rightarrow> (Inl (HttpException ''Issue not found'' NOT_FOUND), w1)
              | Some i \<Rightarrow>
                  if fails e (Publish ''news'' ''news.issue.update'')
                  then (Inl (Rejected (Publish ''news'' ''news.issue.update'')), w1)
                  else (Inr i, w1\<lparr>published := published w1 @
                          [\<lparr>exchange = ''news'', routingKey = ''news.issue.update'',
                            payload =
                              spread [(''projectId'', JStr (projectId i)),
                                      (''issueId'', JStr (id_Issue i)),
                                      (''updateScopes'', JScopes (updateScopes dto))]
                                (spread dto [])\<rparr>]\<rparr>))"
  by (simp add: update_def await_def resolve_def throw_def Repository_findOne_def
      publish_def external_def split: prod.splits sum.splits option.splits)

lemma scopes_of_update_payload:
  "map_of (spread [(''projectId'', p), (''issueId'', q), (''updateScopes'', s)] ob)
     ''updateScopes'' = Some s"
  by (simp add: spread_def map_of_set_prop)

lemma update_resolved:
  assumes "update e k dto w = (Inr i, w')"
  shows "published w' = published w @
           [\<lparr>exchange = ''news'', routingKey = ''news.issue.update'',
             payload = spread [(''projectId'', JStr (projectId i)),
                               (''issueId'', JStr (id_Issue i)),
                               (''updateScopes'', JScopes (updateScopes dto))]
                         (spread dto [])\<rparr>]"
proof -
  obtain r w1 where first: "Repository_update e k dto w = (r, w1)"
    by (cases "Repository_update e k dto w")
  with assms obtain u where "r = Inr u"
    by (cases r) (auto simp add: update_unfold)
  with first have "published w1 = published w"
    using Repository_update_accepted by blast
  with assms first \<open>r = Inr u\<close> show ?thesis
    by (auto simp add: update_unfold split: if_splits option.splits)
qed

lemma update_failed:
  assumes "fst (update e k dto w) = Inl err"
  shows "published (snd (update e k dto w)) = published w"
proof -
  obtain r w1 where first: "Repository_update e k dto w = (r, w1)"
    by (cases "Repository_update e k dto w")
  show ?thesis
  proof (cases r)
    case (Inl x)
    with first have "w1 = w"
      using Repository_update_rejected by blast
    with first Inl show ?thesis
      by (simp add: update_unfold)
  next
    case (Inr u)
    with first have "published w1 = published w"
      using Repository_update_accepted by blast
    with assms first Inr show ?thesis
      by (auto simp add: update_unfold split: if_splits option.splits)
  qed
qed

lemma remove_unfold:
  "remove e k w =
    (if fails e IssueFindOne then (Inl (Rejected IssueFindOne), w)
     else case find (\<lambda>i. id_Issue i = k) (issues w) of
       None \<Rightarrow> (Inl (HttpException ''Issue not found'' NOT_FOUND), w)
     | Some i \<Rightarrow>
        if fails e IssueDelete then (Inl (Rejected IssueDelete), w)
        else
          let w1 = w\<lparr>issues := filter (\<lambda>i. id_Issue i \<noteq> k) (issues w)\<rparr>;
              deleted = \<lparr>exchange = ''direct-exchange'', routingKey = ''project.issue.deleted'',
                         payload = [(''uuid'', JStr k)]\<rparr>;
              news = \<lparr>exchange = ''news'', routingKey = ''news.issue.delete'',
                      payload = [(''title'', JStr (title i)),
                                 (''description'', JStr (description i)),
                                 (''projectId'', JStr (projectId i)),
                                 (''issueId'', JStr (id_Issue i))]\<rparr>
          in
          if falsy (delete_affected e)
          then (Inl (HttpException ''Post not found'' NOT_FOUND), w1)
          else if fails e (Publish ''direct-exchange'' ''project.issue.deleted'')
          then (Inl (Rejected (Publish ''direct-exchange'' ''project.issue.deleted'')), w1)
          else if fails e (Publish ''news'' ''news.issue.delete'')
          then (Inl (Rejected (Publish ''news'' ''news.issue.delete'')),
                w1\<lparr>published := published w @ [deleted]\<rparr>)
          else (Inr (), w1\<lparr>published := published w @ [deleted, news]\<rparr>))"
  by (simp add: remove_def findOne_unfold async_defs repo_defs spread_def Let_def
      split: option.splits)

lemma addComment_unfold:
  "addComment e k dto w =
    (if fails e IssueFindOne then (Inl (Rejected IssueFindOne), w)
     else case find (\<lambda>i. id_Issue i = k) (issues w) of
       None \<Rightarrow> (Inl (HttpException ''Issue not found'' NOT_FOUND), w)
     | Some i \<Rightarrow>
        if fails e CommentSave then (Inl (Rejected CommentSave), w)
        else
          let c = \<lparr>id_Comment = generated_id e, body = dto, issue = i\<rparr>;
              w1 = w\<lparr>comments := comments w @ [c]\<rparr>
          in
          if fails e (Publish ''news'' ''news.issue.update'')
          then (Inl (Rejected (Publish ''news'' ''news.issue.update'')), w1)
          else (Inr c, w1\<lparr>published := published w @
                  [\<lparr>exchange = ''news'', routingKey = ''news.issue.update'',
                    payload = spread dto [(''issueId'', JStr (id_Issue i)),
                                          (''projectId'', JStr (projectId i)),
                                          (''updateScopes'', JScopes [COMMENT])]\<rparr>]\<rparr>))"
  by (auto simp add: addComment_def findOne_unfold async_defs repo_defs spread_def Let_def
      split: option.splits)

lemma findAllCommentsForIssue_unfold:
  "findAllCommentsForIssue e k w =
     (if fails e IssueFindOne then (Inl (Rejected IssueFindOne), w)
      else (Inr (map_option
                   (\<lambda>i. Issue.extend i
                      (IssueWithComments.fields
                         (filter (\<lambda>c. id_Issue (issue c) = k) (comments w))))
                   (find (\<lambda>i. id_Issue i = k) (issues w))), w))"
  by (simp add: findAllCommentsForIssue_def truthy_promise_def async_defs repo_defs)

section \<open>The claims\<close>

text \<open>
  \<noindent>\<^bold>\<open>C1.\<close> The claim: in \<open>create\<close> only a failure of the save becomes the
  Internal-Error "Could not save issue", and a failure of a publish call reaches the
  caller as it is. The code does otherwise: here the save is accepted, the broker rejects
  the first publish, and the caller gets the Internal-Error, not the broker's rejection.
\<close>

theorem create_publish_rejected_counterexample:
  "fails env_publish_rejected (Publish ''direct-exchange'' ''project.issue.created'')
   \<and> \<not> fails env_publish_rejected IssueSave
   \<and> fst (create env_publish_rejected bug_a world_empty)
       \<noteq> Inl (Rejected (Publish ''direct-exchange'' ''project.issue.created''))
   \<and> fst (create env_publish_rejected bug_a world_empty)
       = Inl (HttpException ''Could not save issue'' INTERNAL_SERVER_ERROR)"
  by (simp add: create_unfold sample_defs)

text \<open>
  \<noindent>\<^bold>\<open>C1, as amended.\<close> The save and both publish calls are inside one \<open>try\<close>:
  \<open>create\<close> fails exactly when one of the three calls is rejected, and every such failure
  is the Internal-Error "Could not save issue"; otherwise it returns the stored issue.
\<close>

theorem create_failures_translated:
  "fst (create e dto w) =
     (if fails e IssueSave
         \<or> fails e (Publish ''direct-exchange'' ''project.issue.created'')
         \<or> fails e (Publish ''news'' ''news.issue.create'')
      then Inl (HttpException ''Could not save issue'' INTERNAL_SERVER_ERROR)
      else Inr \<lparr>id_Issue = generated_id e, title = title_dto dto,
                description = description_dto dto, status = default_status e,
                projectId = projectId_dto dto\<rparr>)"
  by (simp add: create_unfold Let_def)

theorem create_failures_translated_witness:
  "fst (create env_publish_rejected bug_a world_empty)
     = Inl (HttpException ''Could not save issue'' INTERNAL_SERVER_ERROR)
   \<and> issues (snd (create env_publish_rejected bug_a world_empty)) = [issue_a]
   \<and> fst (create env_ok bug_a world_empty) = Inr issue_a"
  using create_failures_translated [of env_publish_rejected bug_a world_empty]
    create_failures_translated [of env_ok bug_a world_empty]
  by (simp add: create_unfold Let_def sample_defs)

text \<open>
  \<noindent>\<^bold>\<open>C2.\<close> Whenever \<open>update\<close> returns an issue it has published exactly one
  message, on \<open>news\<close> with key \<open>news.issue.update\<close>, whose \<open>updateScopes\<close> are the scopes
  computed from the input: they contain TITLE iff the input has the key \<open>title\<close>,
  DESCRIPTION iff it has \<open>description\<close>, STATUS iff it has \<open>status\<close>. The stored values play
  no part; an input that is only \<open>{status: x}\<close> gives \<open>[STATUS]\<close> for every \<open>x\<close>. The
  instance below sends the status the issue already has.
\<close>

theorem update_scopes_by_presence:
  assumes "update e k dto w = (Inr i, w')"
  shows "\<exists>m scopes.
           published w' = published w @ [m]
         \<and> exchange m = ''news'' \<and> routingKey m = ''news.issue.update''
         \<and> map_of (payload m) ''updateScopes'' = Some (JScopes scopes)
         \<and> scopes = updateScopes dto
         \<and> (TITLE \<in> set scopes \<longleftrightarrow> has_key ''title'' dto)
         \<and> (DESCRIPTION \<in> set scopes \<longleftrightarrow> has_key ''description'' dto)
         \<and> (STATUS \<in> set scopes \<longleftrightarrow> has_key ''status'' dto)
         \<and> (\<forall>x. dto = [(''status'', x)] \<longrightarrow> scopes = [STATUS])"
proof -
  let ?m = "\<lparr>exchange = ''news'', routingKey = ''news.issue.update'',
             payload = spread [(''projectId'', JStr (projectId i)),
                               (''issueId'', JStr (id_Issue i)),
                               (''updateScopes'', JScopes (updateScopes dto))]
                         (spread dto [])\<rparr>"
  have sent: "published w' = published w @ [?m]"
    by (rule update_resolved [OF assms])
  have carried: "map_of (payload ?m) ''updateScopes'' = Some (JScopes (updateScopes dto))"
    by (simp add: scopes_of_update_payload)
  have presence:
    "(TITLE \<in> set (updateScopes dto) \<longleftrightarrow> has_key ''title'' dto)
     \<and> (DESCRIPTION \<in> set (updateScopes dto) \<longleftrightarrow> has_key ''description'' dto)
     \<and> (STATUS \<in> set (updateScopes dto) \<longleftrightarrow> has_key ''status'' dto)"
    by (simp add: updateScopes_unfold)
  have only_status: "\<forall>x. dto = [(''status'', x)] \<longrightarrow> updateScopes dto = [STATUS]"
    by (simp add: updateScopes_unfold has_key_def)
  have named: "exchange ?m = ''news'' \<and> routingKey ?m = ''news.issue.update''"
    by simp
  from sent named carried presence only_status
  have "published w' = published w @ [?m]
         \<and> exchange ?m = ''news'' \<and> routingKey ?m = ''news.issue.update''
         \<and> map_of (payload ?m) ''updateScopes'' = Some (JScopes (updateScopes dto))
         \<and> updateScopes dto = updateScopes dto
         \<and> (TITLE \<in> set (updateScopes dto) \<longleftrightarrow> has_key ''title'' dto)
         \<and> (DESCRIPTION \<in> set (updateScopes dto) \<longleftrightarrow> has_key ''description'' dto)
         \<and> (STATUS \<in> set (updateScopes dto) \<longleftrightarrow> has_key ''status'' dto)
         \<and> (\<forall>x. dto = [(''status'', x)] \<longrightarrow> updateScopes dto = [STATUS])"
    by blast
  then show ?thesis
    by (intro exI [of _ ?m] exI [of _ "updateScopes dto"])
qed

theorem update_scopes_by_presence_witness:
  "update env_ok ''id-1'' [(''status'', JStr ''OPEN'')] world_a =
     (Inr issue_a,
      world_a\<lparr>published :=
        [\<lparr>exchange = ''news'', routingKey = ''news.issue.update'',
          payload = [(''status'', JStr ''OPEN''), (''projectId'', JStr ''P1''),
                     (''issueId'', JStr ''id-1''), (''updateScopes'', JScopes [STATUS])]\<rparr>]\<rparr>)
   \<and> status issue_a = ''OPEN''
   \<and> (\<exists>m. published (snd (update env_ok ''id-1'' [(''status'', JStr ''OPEN'')] world_a))
             = published world_a @ [m]
          \<and> map_of (payload m) ''updateScopes'' = Some (JScopes [STATUS]))"
proof -
  have run: "update env_ok ''id-1'' [(''status'', JStr ''OPEN'')] world_a =
     (Inr issue_a,
      world_a\<lparr>published :=
        [\<lparr>exchange = ''news'', routingKey = ''news.issue.update'',
          payload = [(''status'', JStr ''OPEN''), (''projectId'', JStr ''P1''),
                     (''issueId'', JStr ''id-1''), (''updateScopes'', JScopes [STATUS])]\<rparr>]\<rparr>)"
  proof -
    have "Repository_update env_ok ''id-1'' [(''status'', JStr ''OPEN'')] world_a
            = (Inr (), world_a)"
      by (simp add: Repository_update_def external_def writable_def columns_def
          keeps_ids_unique_def Let_def sample_defs)
    then show ?thesis
      by (simp add: update_unfold updateScopes_unfold has_key_def spread_def sample_defs)
  qed
  from update_scopes_by_presence [OF run]
  obtain m scopes where m:
    "published (world_a\<lparr>published :=
        [\<lparr>exchange = ''news'', routingKey = ''news.issue.update'',
          payload = [(''status'', JStr ''OPEN''), (''projectId'', JStr ''P1''),
                     (''issueId'', JStr ''id-1''), (''updateScopes'', JScopes [STATUS])]\<rparr>]\<rparr>)
       = published world_a @ [m]"
    "map_of (payload m) ''updateScopes'' = Some (JScopes scopes)"
    "\<forall>x. [(''status'', JStr ''OPEN'')] = [(''status'', x)] \<longrightarrow> scopes = [STATUS]"
    by blast
  from m(3) have "scopes = [STATUS]"
    by blast
  with m(1,2) have "\<exists>m. published (snd (update env_ok ''id-1'' [(''status'', JStr ''OPEN'')] world_a))
             = published world_a @ [m]
          \<and> map_of (payload m) ''updateScopes'' = Some (JScopes [STATUS])"
    unfolding run snd_conv by blast
  moreover have "status issue_a = ''OPEN''"
    by (simp add: issue_a_def)
  ultimately show ?thesis
    using run by blast
qed

text \<open>
  \<noindent>\<^bold>\<open>C3.\<close> A successful \<open>create\<close> returns the issue with the id the store generated
  (non-empty when the store's ids are) and with the title, description and projectId of
  the input; it has appended this issue to the table and has published exactly two
  messages: \<open>project.issue.created\<close> on \<open>direct-exchange\<close> with \<open>{ uuid: newId }\<close>, then
  \<open>news.issue.create\<close> on \<open>news\<close> with the input's fields followed by \<open>issueId: newId\<close>.
  \<open>create\<close> does succeed when the store accepts the save and the broker both publishes.
\<close>

theorem create_success:
  assumes "generated_id e \<noteq> []"
  shows "(create e dto w = (Inr i, w') \<longrightarrow>
            id_Issue i = generated_id e \<and> id_Issue i \<noteq> []
          \<and> title i = title_dto dto \<and> description i = description_dto dto
          \<and> projectId i = projectId_dto dto
          \<and> issues w' = issues w @ [i] \<and> comments w' = comments w
          \<and> published w' = published w @
               [\<lparr>exchange = ''direct-exchange'', routingKey = ''project.issue.created'',
                 payload = [(''uuid'', JStr (id_Issue i))]\<rparr>,
                \<lparr>exchange = ''news'', routingKey = ''news.issue.create'',
                 payload = props dto @ [(''issueId'', JStr (id_Issue i))]\<rparr>])
       \<and> (\<not> fails e IssueSave
           \<and> \<not> fails e (Publish ''direct-exchange'' ''project.issue.created'')
           \<and> \<not> fails e (Publish ''news'' ''news.issue.create'')
          \<longrightarrow> (\<exists>j. fst (create e dto w) = Inr j))"
  using assms
  by (auto simp add: create_unfold Let_def props_def split: if_splits)

theorem create_success_witness:
  "generated_id env_ok \<noteq> []
   \<and> create env_ok bug_a world_empty =
       (Inr issue_a,
        \<lparr>issues = [issue_a], comments = [],
         published =
           [\<lparr>exchange = ''direct-exchange'', routingKey = ''project.issue.created'',
             payload = [(''uuid'', JStr ''id-1'')]\<rparr>,
            \<lparr>exchange = ''news'', routingKey = ''news.issue.create'',
             payload = [(''title'', JStr ''Bug A''), (''description'', JStr ''desc''),
                        (''projectId'', JStr ''P1''), (''issueId'', JStr ''id-1'')]\<rparr>],
         console = []\<rparr>)
   \<and> id_Issue issue_a \<noteq> [] \<and> projectId issue_a = ''P1''"
proof -
  have gen: "generated_id env_ok \<noteq> []"
    by (simp add: env_ok_def)
  have run: "create env_ok bug_a world_empty =
       (Inr issue_a,
        \<lparr>issues = [issue_a], comments = [],
         published =
           [\<lparr>exchange = ''direct-exchange'', routingKey = ''project.issue.created'',
             payload = [(''uuid'', JStr ''id-1'')]\<rparr>,
            \<lparr>exchange = ''news'', routingKey = ''news.issue.create'',
             payload = [(''title'', JStr ''Bug A''), (''description'', JStr ''desc''),
                        (''projectId'', JStr ''P1''), (''issueId'', JStr ''id-1'')]\<rparr>],
         console = []\<rparr>)"
    by (simp add: create_unfold Let_def sample_defs)
  from create_success [OF gen, of bug_a world_empty issue_a] run
  have "id_Issue issue_a \<noteq> [] \<and> projectId issue_a = projectId_dto bug_a"
    by blast
  with gen run show ?thesis
    by (simp add: bug_a_def)
qed

text \<open>
  \<noindent>\<^bold>\<open>C4.\<close> \<open>remove\<close> fails with Not-Found when there is no issue with the id. When
  it has fetched the issue and the delete reports zero affected rows (or none at all), it
  fails with Not-Found ("Post not found") and publishes nothing. A \<open>remove\<close> that returns
  has found the issue, got a positive number of affected rows, deleted the rows with its id
  and published \<open>project.issue.deleted\<close> on \<open>direct-exchange\<close> with \<open>{ uuid }\<close>, then
  \<open>news.issue.delete\<close> on \<open>news\<close> with the title, description, projectId and id the issue
  had before the delete; afterwards \<open>findOne\<close> on the same id fails with Not-Found.
  \<open>remove\<close> does return when the issue exists, the collaborators accept the four calls
  and the delete reports a positive number.
\<close>

theorem remove_existing:
  "(find (\<lambda>i. id_Issue i = k) (issues w) = None \<and> \<not> fails e IssueFindOne
      \<longrightarrow> remove e k w = (Inl (HttpException ''Issue not found'' NOT_FOUND), w))
   \<and> (find (\<lambda>i. id_Issue i = k) (issues w) \<noteq> None
        \<and> \<not> fails e IssueFindOne \<and> \<not> fails e IssueDelete
        \<and> (delete_affected e = Some 0 \<or> delete_affected e = None)
      \<longrightarrow> fst (remove e k w) = Inl (HttpException ''Post not found'' NOT_FOUND)
          \<and> published (snd (remove e k w)) = published w)
   \<and> (remove e k w = (Inr u, w')
      \<longrightarrow> (\<exists>j n. find (\<lambda>i. id_Issue i = k) (issues w) = Some j
             \<and> delete_affected e = Some n \<and> 0 < n
             \<and> issues w' = filter (\<lambda>i. id_Issue i \<noteq> k) (issues w)
             \<and> published w' = published w @
                  [\<lparr>exchange = ''direct-exchange'', routingKey = ''project.issue.deleted'',
                    payload = [(''uuid'', JStr k)]\<rparr>,
                   \<lparr>exchange = ''news'', routingKey = ''news.issue.delete'',
                    payload = [(''title'', JStr (title j)),
                               (''description'', JStr (description j)),
                               (''projectId'', JStr (projectId j)),
                               (''issueId'', JStr k)]\<rparr>])
          \<and> (\<not> fails e' IssueFindOne
               \<longrightarrow> findOne e' k w' = (Inl (HttpException ''Issue not found'' NOT_FOUND), w')))
   \<and> (find (\<lambda>i. id_Issue i = k) (issues w) \<noteq> None
        \<and> \<not> fails e IssueFindOne \<and> \<not> fails e IssueDelete
        \<and> \<not> fails e (Publish ''direct-exchange'' ''project.issue.deleted'')
        \<and> \<not> fails e (Publish ''news'' ''news.issue.delete'')
        \<and> delete_affected e = Some n \<and> 0 < n
      \<longrightarrow> fst (remove e k w) = Inr ())"
proof (intro conjI impI)
  assume "find (\<lambda>i. id_Issue i = k) (issues w) = None \<and> \<not> fails e IssueFindOne"
  then show "remove e k w = (Inl (HttpException ''Issue not found'' NOT_FOUND), w)"
    by (simp add: remove_unfold)
next
  assume zero: "find (\<lambda>i. id_Issue i = k) (issues w) \<noteq> None
        \<and> \<not> fails e IssueFindOne \<and> \<not> fails e IssueDelete
        \<and> (delete_affected e = Some 0 \<or> delete_affected e = None)"
  then have "falsy (delete_affected e)"
    by (auto simp add: falsy_def)
  with zero show "fst (remove e k w) = Inl (HttpException ''Post not found'' NOT_FOUND)"
    and "published (snd (remove e k w)) = published w"
    by (auto simp add: remove_unfold Let_def)
next
  assume ok: "remove e k w = (Inr u, w')"
  then obtain j where j: "find (\<lambda>i. id_Issue i = k) (issues w) = Some j"
    by (auto simp add: remove_unfold split: if_splits option.splits)
  have idj: "id_Issue j = k"
    using find_Some_mem [OF j] by simp
  from ok j have "\<not> falsy (delete_affected e)"
    by (auto simp add: remove_unfold Let_def split: if_splits)
  then obtain n where n: "delete_affected e = Some n" "0 < n"
    by (auto simp add: falsy_def split: option.splits)
  from ok j idj n
  show "\<exists>j n. find (\<lambda>i. id_Issue i = k) (issues w) = Some j
             \<and> delete_affected e = Some n \<and> 0 < n
             \<and> issues w' = filter (\<lambda>i. id_Issue i \<noteq> k) (issues w)
             \<and> published w' = published w @
                  [\<lparr>exchange = ''direct-exchange'', routingKey = ''project.issue.deleted'',
                    payload = [(''uuid'', JStr k)]\<rparr>,
                   \<lparr>exchange = ''news'', routingKey = ''news.issue.delete'',
                    payload = [(''title'', JStr (title j)),
                               (''description'', JStr (description j)),
                               (''projectId'', JStr (projectId j)),
                               (''issueId'', JStr k)]\<rparr>]"
    by (auto simp add: remove_unfold Let_def split: if_splits)
  from ok j have gone: "issues w' = filter (\<lambda>i. id_Issue i \<noteq> k) (issues w)"
    by (auto simp add: remove_unfold Let_def split: if_splits)
  show "findOne e' k w' = (Inl (HttpException ''Issue not found'' NOT_FOUND), w')"
    if "\<not> fails e' IssueFindOne"
    using that by (simp add: findOne_unfold gone find_filter_other)
next
  assume "find (\<lambda>i. id_Issue i = k) (issues w) \<noteq> None
        \<and> \<not> fails e IssueFindOne \<and> \<not> fails e IssueDelete
        \<and> \<not> fails e (Publish ''direct-exchange'' ''project.issue.deleted'')
        \<and> \<not> fails e (Publish ''news'' ''news.issue.delete'')
        \<and> delete_affected e = Some n \<and> 0 < n"
  then show "fst (remove e k w) = Inr ()"
    by (auto simp add: remove_unfold falsy_def Let_def)
qed

theorem remove_existing_witness:
  "remove env_ok ''id-1'' world_a =
     (Inr (),
      \<lparr>issues = [], comments = [],
       published =
         [\<lparr>exchange = ''direct-exchange'', routingKey = ''project.issue.deleted'',
           payload = [(''uuid'', JStr ''id-1'')]\<rparr>,
          \<lparr>exchange = ''news'', routingKey = ''news.issue.delete'',
           payload = [(''title'', JStr ''Bug A''), (''description'', JStr ''desc''),
                      (''projectId'', JStr ''P1''), (''issueId'', JStr ''id-1'')]\<rparr>],
       console = []\<rparr>)
   \<and> findOne env_ok ''id-1'' (snd (remove env_ok ''id-1'' world_a)) =
       (Inl (HttpException ''Issue not found'' NOT_FOUND), snd (remove env_ok ''id-1'' world_a))
   \<and> remove env_ok ''id-2'' world_a = (Inl (HttpException ''Issue not found'' NOT_FOUND), world_a)
   \<and> delete_affected env_zero_affected = Some 0
   \<and> fst (remove env_zero_affected ''id-1'' world_a)
       = Inl (HttpException ''Post not found'' NOT_FOUND)
   \<and> published (snd (remove env_zero_affected ''id-1'' world_a)) = []"
proof -
  let ?w' = "\<lparr>issues = [], comments = [],
       published =
         [\<lparr>exchange = ''direct-exchange'', routingKey = ''project.issue.deleted'',
           payload = [(''uuid'', JStr ''id-1'')]\<rparr>,
          \<lparr>exchange = ''news'', routingKey = ''news.issue.delete'',
           payload = [(''title'', JStr ''Bug A''), (''description'', JStr ''desc''),
                      (''projectId'', JStr ''P1''), (''issueId'', JStr ''id-1'')]\<rparr>],
       console = []\<rparr>"
  have run: "remove env_ok ''id-1'' world_a = (Inr (), ?w')"
    by (simp add: remove_unfold falsy_def Let_def sample_defs)
  have accepted: "\<not> fails env_ok IssueFindOne"
    by (simp add: env_ok_def)
  have absent: "find (\<lambda>i. id_Issue i = ''id-2'') (issues world_a) = None
                  \<and> \<not> fails env_ok IssueFindOne"
    by (simp add: sample_defs)
  have zero: "find (\<lambda>i. id_Issue i = ''id-1'') (issues world_a) \<noteq> None
        \<and> \<not> fails env_zero_affected IssueFindOne \<and> \<not> fails env_zero_affected IssueDelete
        \<and> (delete_affected env_zero_affected = Some 0
            \<or> delete_affected env_zero_affected = None)"
    by (simp add: sample_defs)
  have reported: "delete_affected env_zero_affected = Some 0"
    by (simp add: env_zero_affected_def)
  note found = remove_existing [of "''id-1''" world_a env_ok "()" ?w' env_ok 1]
  note other = remove_existing [of "''id-2''" world_a env_ok "()" ?w' env_ok 1]
  note none = remove_existing [of "''id-1''" world_a env_zero_affected "()" ?w' env_ok 1]
  from found run accepted
  have after: "findOne env_ok ''id-1'' ?w' = (Inl (HttpException ''Issue not found'' NOT_FOUND), ?w')"
    by blast
  from other absent
  have missing: "remove env_ok ''id-2'' world_a
                   = (Inl (HttpException ''Issue not found'' NOT_FOUND), world_a)"
    by blast
  from none zero
  have unaffected: "fst (remove env_zero_affected ''id-1'' world_a)
                      = Inl (HttpException ''Post not found'' NOT_FOUND)
                    \<and> published (snd (remove env_zero_affected ''id-1'' world_a))
                      = published world_a"
    by blast
  from run after missing reported unaffected show ?thesis
    by (simp add: world_a_def)
qed

text \<open>
  \<noindent>\<^bold>\<open>C5.\<close> \<open>addComment\<close> on an id that no issue has fails and leaves the whole state
  as it was (no comment stored, no message published); the failure is Not-Found
  ("Issue not found") whenever the repository answers the lookup.
\<close>

theorem addComment_missing_issue:
  assumes "find (\<lambda>i. id_Issue i = k) (issues w) = None"
  shows "snd (addComment e k dto w) = w
       \<and> (\<exists>err. fst (addComment e k dto w) = Inl err)
       \<and> (\<not> fails e IssueFindOne \<longrightarrow>
            addComment e k dto w = (Inl (HttpException ''Issue not found'' NOT_FOUND), w))"
  using assms by (simp add: addComment_unfold)

theorem addComment_missing_issue_witness:
  "find (\<lambda>i. id_Issue i = ''id-2'') (issues world_a) = None
   \<and> addComment env_ok ''id-2'' [(''text'', JStr ''hi'')] world_a =
       (Inl (HttpException ''Issue not found'' NOT_FOUND), world_a)
   \<and> comments (snd (addComment env_ok ''id-2'' [(''text'', JStr ''hi'')] world_a)) = []
   \<and> published (snd (addComment env_ok ''id-2'' [(''text'', JStr ''hi'')] world_a)) = []"
proof -
  have absent: "find (\<lambda>i. id_Issue i = ''id-2'') (issues world_a) = None"
    by (simp add: sample_defs)
  have accepted: "\<not> fails env_ok IssueFindOne"
    by (simp add: env_ok_def)
  from addComment_missing_issue [OF absent, of env_ok "[(''text'', JStr ''hi'')]"] accepted
  have "addComment env_ok ''id-2'' [(''text'', JStr ''hi'')] world_a =
       (Inl (HttpException ''Issue not found'' NOT_FOUND), world_a)"
    by blast
  with absent show ?thesis
    by (simp add: world_a_def)
qed

text \<open>
  \<noindent>\<^bold>\<open>C6.\<close> The claim: \<open>findAllCommentsForIssue\<close> fails with Not-Found when no issue has
  the given id. The code does not: the lookup is not awaited, the test on the promise
  always succeeds, and the call resolves with no issue (\<open>undefined\<close>). Here the only
  stored issue has id \<open>id-1\<close> and the call is made for \<open>id-2\<close>.
\<close>

theorem findAllCommentsForIssue_missing_resolves:
  "find (\<lambda>i. id_Issue i = ''id-2'') (issues world_a) = None
   \<and> findAllCommentsForIssue env_ok ''id-2'' world_a = (Inr None, world_a)
   \<and> fst (findAllCommentsForIssue env_ok ''id-2'' world_a)
       \<noteq> Inl (HttpException ''Issue not found'' NOT_FOUND)"
  by (simp add: findAllCommentsForIssue_unfold sample_defs)

text \<open>
  \<noindent>\<^bold>\<open>C7.\<close> The claim: \<open>update\<close> on an id that no issue has after the update attempt
  fails with Not-Found. The code does otherwise when the repository rejects the attempt:
  here no issue has the id \<open>id-2\<close>, before or after, the value set is empty, and the
  caller gets the repository's rejection of the update, not Not-Found.
\<close>

theorem update_missing_rejected_counterexample:
  "find (\<lambda>i. id_Issue i = ''id-2'') (issues world_a) = None
   \<and> find (\<lambda>i. id_Issue i = ''id-2'') (issues (snd (update env_ok ''id-2'' [] world_a))) = None
   \<and> fst (update env_ok ''id-2'' [] world_a) = Inl (Rejected IssueUpdate)
   \<and> fst (update env_ok ''id-2'' [] world_a)
       \<noteq> Inl (HttpException ''Issue not found'' NOT_FOUND)"
  by (simp add: update_unfold Repository_update_empty sample_defs)

text \<open>
  \<noindent>\<^bold>\<open>C7, as amended.\<close> When the repository accepts the update and answers the lookup,
  and no issue has the id after the update attempt, \<open>update\<close> fails with Not-Found
  ("Issue not found") and publishes nothing. An update attempt that the repository
  rejects fails with the repository's error and changes nothing. More generally an
  \<open>update\<close> that fails has published nothing, and an \<open>update\<close> that has published something
  has returned the issue it found.
\<close>

theorem update_missing_issue:
  "(fst (Repository_update e k dto w) = Inr () \<and> \<not> fails e IssueFindOne
      \<and> find (\<lambda>i. id_Issue i = k) (issues (snd (Repository_update e k dto w))) = None
     \<longrightarrow> fst (update e k dto w) = Inl (HttpException ''Issue not found'' NOT_FOUND)
         \<and> published (snd (update e k dto w)) = published w)
   \<and> (fst (Repository_update e k dto w) = Inl err
     \<longrightarrow> update e k dto w = (Inl err, w))
   \<and> (fst (update e k dto w) = Inl err
     \<longrightarrow> published (snd (update e k dto w)) = published w)
   \<and> (published (snd (update e k dto w)) \<noteq> published w
     \<longrightarrow> (\<exists>i. fst (update e k dto w) = Inr i
             \<and> find (\<lambda>i. id_Issue i = k) (issues (snd (update e k dto w))) = Some i))"
proof (intro conjI impI)
  assume h: "fst (Repository_update e k dto w) = Inr () \<and> \<not> fails e IssueFindOne
      \<and> find (\<lambda>i. id_Issue i = k) (issues (snd (Repository_update e k dto w))) = None"
  obtain w1 where first: "Repository_update e k dto w = (Inr (), w1)"
    using h by (cases "Repository_update e k dto w") auto
  then have same: "published w1 = published w"
    using Repository_update_accepted by blast
  from h first same
  show "fst (update e k dto w) = Inl (HttpException ''Issue not found'' NOT_FOUND)"
    and "published (snd (update e k dto w)) = published w"
    by (simp_all add: update_unfold)
next
  assume "fst (Repository_update e k dto w) = Inl err"
  then obtain w1 where first: "Repository_update e k dto w = (Inl err, w1)"
    by (cases "Repository_update e k dto w") auto
  then have "w1 = w"
    using Repository_update_rejected by blast
  with first show "update e k dto w = (Inl err, w)"
    by (simp add: update_unfold)
next
  assume "fst (update e k dto w) = Inl err"
  then show "published (snd (update e k dto w)) = published w"
    by (rule update_failed)
next
  assume changed: "published (snd (update e k dto w)) \<noteq> published w"
  obtain r w' where run: "update e k dto w = (r, w')"
    by (cases "update e k dto w")
  show "\<exists>i. fst (update e k dto w) = Inr i
          \<and> find (\<lambda>i. id_Issue i = k) (issues (snd (update e k dto w))) = Some i"
  proof (cases r)
    case (Inl x)
    with run have "published (snd (update e k dto w)) = published w"
      using update_failed [of e k dto w x] by simp
    with changed show ?thesis
      by simp
  next
    case (Inr i)
    with run show ?thesis
      by (auto simp add: update_unfold split: prod.splits sum.splits if_splits option.splits)
  qed
qed

theorem update_missing_issue_witness:
  "find (\<lambda>i. id_Issue i = ''id-2'')
       (issues (snd (Repository_update env_ok ''id-2'' [(''title'', JStr ''T'')] world_a))) = None
   \<and> update env_ok ''id-2'' [(''title'', JStr ''T'')] world_a =
       (Inl (HttpException ''Issue not found'' NOT_FOUND), world_a)
   \<and> published (snd (update env_ok ''id-2'' [(''title'', JStr ''T'')] world_a)) = []"
proof -
  have step: "Repository_update env_ok ''id-2'' [(''title'', JStr ''T'')] world_a
                = (Inr (), world_a)"
    by (simp add: Repository_update_def external_def writable_def columns_def
        keeps_ids_unique_def Let_def sample_defs)
  have given: "fst (Repository_update env_ok ''id-2'' [(''title'', JStr ''T'')] world_a) = Inr ()
      \<and> \<not> fails env_ok IssueFindOne
      \<and> find (\<lambda>i. id_Issue i = ''id-2'')
          (issues (snd (Repository_update env_ok ''id-2'' [(''title'', JStr ''T'')] world_a)))
        = None"
    by (simp add: step) (simp add: sample_defs)
  have state: "snd (update env_ok ''id-2'' [(''title'', JStr ''T'')] world_a) = world_a"
    by (simp add: update_unfold step) (simp add: sample_defs)
  from update_missing_issue [of env_ok "''id-2''" "[(''title'', JStr ''T'')]" world_a] given
  have "fst (update env_ok ''id-2'' [(''title'', JStr ''T'')] world_a)
          = Inl (HttpException ''Issue not found'' NOT_FOUND)
        \<and> published (snd (update env_ok ''id-2'' [(''title'', JStr ''T'')] world_a))
          = published world_a"
    by blast
  with given state show ?thesis
    by (simp add: prod_eq_iff world_a_def)
qed

text \<open>
  \<noindent>\<^bold>\<open>C8.\<close> Whenever \<open>addComment\<close> has stored a comment, \<open>findOne\<close> had returned an issue
  with the given id that is in the table at that moment, exactly one comment was appended,
  and that comment's \<open>issue\<close> is the fetched issue.
\<close>

theorem addComment_links_fetched_issue:
  assumes "addComment e k dto w = (r, w')" and "comments w' \<noteq> comments w"
  shows "\<exists>i c. find (\<lambda>i. id_Issue i = k) (issues w) = Some i
             \<and> findOne e k w = (Inr i, w)
             \<and> i \<in> set (issues w) \<and> id_Issue i = k
             \<and> issues w' = issues w
             \<and> comments w' = comments w @ [c]
             \<and> issue c = i \<and> body c = dto"
  using assms
  by (auto simp add: addComment_unfold findOne_unfold Let_def
      split: if_splits option.splits dest: find_Some_mem)

theorem addComment_links_fetched_issue_witness:
  "addComment env_ok ''id-1'' [(''text'', JStr ''hi'')] world_a =
     (Inr \<lparr>id_Comment = ''id-1'', body = [(''text'', JStr ''hi'')], issue = issue_a\<rparr>,
      world_a\<lparr>comments := [\<lparr>id_Comment = ''id-1'', body = [(''text'', JStr ''hi'')],
                               issue = issue_a\<rparr>],
              published :=
                [\<lparr>exchange = ''news'', routingKey = ''news.issue.update'',
                  payload = [(''issueId'', JStr ''id-1''), (''projectId'', JStr ''P1''),
                             (''updateScopes'', JScopes [COMMENT]),
                             (''text'', JStr ''hi'')]\<rparr>]\<rparr>)
   \<and> (\<exists>i c. find (\<lambda>i. id_Issue i = ''id-1'') (issues world_a) = Some i
          \<and> i \<in> set (issues world_a)
          \<and> comments (snd (addComment env_ok ''id-1'' [(''text'', JStr ''hi'')] world_a))
              = comments world_a @ [c]
          \<and> issue c = i)"
proof -
  let ?c = "\<lparr>id_Comment = ''id-1'', body = [(''text'', JStr ''hi'')], issue = issue_a\<rparr>"
  let ?w' = "world_a\<lparr>comments := [?c],
              published :=
                [\<lparr>exchange = ''news'', routingKey = ''news.issue.update'',
                  payload = [(''issueId'', JStr ''id-1''), (''projectId'', JStr ''P1''),
                             (''updateScopes'', JScopes [COMMENT]),
                             (''text'', JStr ''hi'')]\<rparr>]\<rparr>"
  have run: "addComment env_ok ''id-1'' [(''text'', JStr ''hi'')] world_a = (Inr ?c, ?w')"
    by (simp add: addComment_unfold spread_def Let_def sample_defs)
  have changed: "comments ?w' \<noteq> comments world_a"
    by (simp add: world_a_def)
  from addComment_links_fetched_issue [OF run changed] run show ?thesis
    by auto
qed

text \<open>
  \<noindent>\<^bold>\<open>C9.\<close> The claim: on an existing issue, when none of the keys \<open>title\<close>,
  \<open>description\<close>, \<open>status\<close> is in the input, the empty input included, \<open>update\<close> still
  publishes \<open>news.issue.update\<close> with an empty \<open>updateScopes\<close>. The code does otherwise for
  the empty input: here the issue \<open>id-1\<close> exists and the collaborators reject nothing of
  their own accord, yet the repository rejects the empty value set, before any publish.
\<close>

theorem update_empty_input_counterexample:
  "find (\<lambda>i. id_Issue i = ''id-1'') (issues world_a) = Some issue_a
   \<and> \<not> has_key ''title'' [] \<and> \<not> has_key ''description'' [] \<and> \<not> has_key ''status'' []
   \<and> fst (update env_ok ''id-1'' [] world_a) = Inl (Rejected IssueUpdate)
   \<and> published (snd (update env_ok ''id-1'' [] world_a)) = published world_a"
  by (simp add: update_unfold Repository_update_empty has_key_def sample_defs)

text \<open>
  \<noindent>\<^bold>\<open>C9, as amended.\<close> Whenever \<open>update\<close> returns the issue, the one message it has
  published carries as \<open>updateScopes\<close> the scopes TITLE, DESCRIPTION, STATUS, in this
  order, each present iff its key is in the input: a subsequence of
  \<open>[TITLE, DESCRIPTION, STATUS]\<close>, the same for two inputs with the same set of keys
  whatever their order, and the empty list when none of the three keys is in the input.
  \<open>update\<close> does return when the repository accepts the update, the issue is found after
  it and the lookup and the publish are accepted. The empty input is always rejected
  by the repository, and nothing is published.
\<close>

theorem update_scopes_fixed_order:
  "(update e k dto w = (Inr i, w') \<longrightarrow>
      (\<exists>m. published w' = published w @ [m]
          \<and> exchange m = ''news'' \<and> routingKey m = ''news.issue.update''
          \<and> map_of (payload m) ''updateScopes'' =
              Some (JScopes ((if has_key ''title'' dto then [TITLE] else []) @
                             (if has_key ''description'' dto then [DESCRIPTION] else []) @
                             (if has_key ''status'' dto then [STATUS] else [])))
          \<and> (\<exists>scopes. map_of (payload m) ''updateScopes'' = Some (JScopes scopes)
                \<and> subseq scopes [TITLE, DESCRIPTION, STATUS])
          \<and> (\<not> has_key ''title'' dto \<and> \<not> has_key ''description'' dto
                \<and> \<not> has_key ''status'' dto
              \<longrightarrow> map_of (payload m) ''updateScopes'' = Some (JScopes []))))
   \<and> (update e k dto w = (Inr i, w') \<and> update e k dto' w = (Inr i', w'')
        \<and> set (map fst dto) = set (map fst dto')
      \<longrightarrow> (\<exists>m m'. published w' = published w @ [m] \<and> published w'' = published w @ [m']
             \<and> map_of (payload m) ''updateScopes'' = map_of (payload m') ''updateScopes''))
   \<and> (fst (Repository_update e k dto w) = Inr ()
        \<and> find (\<lambda>i. id_Issue i = k) (issues (snd (Repository_update e k dto w))) \<noteq> None
        \<and> \<not> fails e IssueFindOne \<and> \<not> fails e (Publish ''news'' ''news.issue.update'')
      \<longrightarrow> (\<exists>j. fst (update e k dto w) = Inr j))
   \<and> fst (update e k [] w) = Inl (Rejected IssueUpdate)
   \<and> snd (update e k [] w) = w"
proof (intro conjI impI)
  assume run: "update e k dto w = (Inr i, w')"
  let ?m = "\<lparr>exchange = ''news'', routingKey = ''news.issue.update'',
             payload = spread [(''projectId'', JStr (projectId i)),
                               (''issueId'', JStr (id_Issue i)),
                               (''updateScopes'', JScopes (updateScopes dto))]
                         (spread dto [])\<rparr>"
  have sent: "published w' = published w @ [?m]"
    by (rule update_resolved [OF run])
  have carried: "map_of (payload ?m) ''updateScopes'' = Some (JScopes (updateScopes dto))"
    by (simp add: scopes_of_update_payload)
  have ordered: "subseq (updateScopes dto) [TITLE, DESCRIPTION, STATUS]"
    by (simp add: updateScopes_unfold)
  have none: "\<not> has_key ''title'' dto \<and> \<not> has_key ''description'' dto
                \<and> \<not> has_key ''status'' dto \<longrightarrow> updateScopes dto = []"
    by (simp add: updateScopes_unfold)
  have "published w' = published w @ [?m]
          \<and> exchange ?m = ''news'' \<and> routingKey ?m = ''news.issue.update''
          \<and> map_of (payload ?m) ''updateScopes'' =
              Some (JScopes ((if has_key ''title'' dto then [TITLE] else []) @
                             (if has_key ''description'' dto then [DESCRIPTION] else []) @
                             (if has_key ''status'' dto then [STATUS] else [])))
          \<and> (\<exists>scopes. map_of (payload ?m) ''updateScopes'' = Some (JScopes scopes)
                \<and> subseq scopes [TITLE, DESCRIPTION, STATUS])
          \<and> (\<not> has_key ''title'' dto \<and> \<not> has_key ''description'' dto
                \<and> \<not> has_key ''status'' dto
              \<longrightarrow> map_of (payload ?m) ''updateScopes'' = Some (JScopes []))"
  proof (intro conjI)
    show "published w' = published w @ [?m]"
      by (rule sent)
    show "exchange ?m = ''news''" and "routingKey ?m = ''news.issue.update''"
      by simp_all
    show "map_of (payload ?m) ''updateScopes'' =
              Some (JScopes ((if has_key ''title'' dto then [TITLE] else []) @
                             (if has_key ''description'' dto then [DESCRIPTION] else []) @
                             (if has_key ''status'' dto then [STATUS] else [])))"
      using carried by (simp only: updateScopes_unfold)
    show "\<exists>scopes. map_of (payload ?m) ''updateScopes'' = Some (JScopes scopes)
                \<and> subseq scopes [TITLE, DESCRIPTION, STATUS]"
      using carried ordered by blast
    show "\<not> has_key ''title'' dto \<and> \<not> has_key ''description'' dto
                \<and> \<not> has_key ''status'' dto
              \<longrightarrow> map_of (payload ?m) ''updateScopes'' = Some (JScopes [])"
      by (simp add: scopes_of_update_payload updateScopes_unfold)
  qed
  then show "\<exists>m. published w' = published w @ [m]
          \<and> exchange m = ''news'' \<and> routingKey m = ''news.issue.update''
          \<and> map_of (payload m) ''updateScopes'' =
              Some (JScopes ((if has_key ''title'' dto then [TITLE] else []) @
                             (if has_key ''description'' dto then [DESCRIPTION] else []) @
                             (if has_key ''status'' dto then [STATUS] else [])))
          \<and> (\<exists>scopes. map_of (payload m) ''updateScopes'' = Some (JScopes scopes)
                \<and> subseq scopes [TITLE, DESCRIPTION, STATUS])
          \<and> (\<not> has_key ''title'' dto \<and> \<not> has_key ''description'' dto
                \<and> \<not> has_key ''status'' dto
              \<longrightarrow> map_of (payload m) ''updateScopes'' = Some (JScopes []))"
    by (rule exI [of _ ?m])
next
  assume both: "update e k dto w = (Inr i, w') \<and> update e k dto' w = (Inr i', w'')
        \<and> set (map fst dto) = set (map fst dto')"
  let ?m = "\<lparr>exchange = ''news'', routingKey = ''news.issue.update'',
             payload = spread [(''projectId'', JStr (projectId i)),
                               (''issueId'', JStr (id_Issue i)),
                               (''updateScopes'', JScopes (updateScopes dto))]
                         (spread dto [])\<rparr>"
  let ?m' = "\<lparr>exchange = ''news'', routingKey = ''news.issue.update'',
             payload = spread [(''projectId'', JStr (projectId i')),
                               (''issueId'', JStr (id_Issue i')),
                               (''updateScopes'', JScopes (updateScopes dto'))]
                         (spread dto' [])\<rparr>"
  from both have sent: "published w' = published w @ [?m]"
    and sent': "published w'' = published w @ [?m']"
    using update_resolved by blast+
  from both have "updateScopes dto = updateScopes dto'"
    by (simp add: updateScopes_unfold has_key_def)
  then have "map_of (payload ?m) ''updateScopes'' = map_of (payload ?m') ''updateScopes''"
    by (simp add: scopes_of_update_payload)
  with sent sent'
  show "\<exists>m m'. published w' = published w @ [m] \<and> published w'' = published w @ [m']
             \<and> map_of (payload m) ''updateScopes'' = map_of (payload m') ''updateScopes''"
    by blast
next
  assume h: "fst (Repository_update e k dto w) = Inr ()
        \<and> find (\<lambda>i. id_Issue i = k) (issues (snd (Repository_update e k dto w))) \<noteq> None
        \<and> \<not> fails e IssueFindOne \<and> \<not> fails e (Publish ''news'' ''news.issue.update'')"
  then obtain w1 where first: "Repository_update e k dto w = (Inr (), w1)"
    by (cases "Repository_update e k dto w") auto
  with h obtain j where "find (\<lambda>i. id_Issue i = k) (issues w1) = Some j"
    by auto
  with h first show "\<exists>j. fst (update e k dto w) = Inr j"
    by (simp add: update_unfold)
next
  show "fst (update e k [] w) = Inl (Rejected IssueUpdate)"
    and "snd (update e k [] w) = w"
    by (simp_all add: update_unfold Repository_update_empty)
qed

theorem update_scopes_fixed_order_witness:
  "(\<exists>m m'. published (snd (update env_ok ''id-1''
                 [(''status'', JStr ''DONE''), (''title'', JStr ''Bug A2'')] world_a))
             = published world_a @ [m]
          \<and> published (snd (update env_ok ''id-1''
                 [(''title'', JStr ''Bug A2''), (''status'', JStr ''DONE'')] world_a))
             = published world_a @ [m']
          \<and> map_of (payload m) ''updateScopes'' = Some (JScopes [TITLE, STATUS])
          \<and> map_of (payload m') ''updateScopes'' = Some (JScopes [TITLE, STATUS]))
   \<and> (\<exists>j m. fst (update env_ok ''id-1'' [(''projectId'', JStr ''P2'')] world_a) = Inr j
          \<and> published (snd (update env_ok ''id-1'' [(''projectId'', JStr ''P2'')] world_a))
             = published world_a @ [m]
          \<and> routingKey m = ''news.issue.update''
          \<and> map_of (payload m) ''updateScopes'' = Some (JScopes []))
   \<and> update env_ok ''id-1'' [] world_a = (Inl (Rejected IssueUpdate), world_a)"
proof -
  let ?d1 = "[(''status'', JStr ''DONE''), (''title'', JStr ''Bug A2'')]"
  let ?d2 = "[(''title'', JStr ''Bug A2''), (''status'', JStr ''DONE'')]"
  let ?p = "[(''projectId'', JStr ''P2'')]"
  let ?i = "issue_a\<lparr>title := ''Bug A2'', status := ''DONE''\<rparr>"
  let ?w = "world_a\<lparr>issues := [?i]\<rparr>"
  have step1: "Repository_update env_ok ''id-1'' ?d1 world_a = (Inr (), ?w)"
    by (simp add: Repository_update_def external_def writable_def columns_def
        keeps_ids_unique_def Let_def sample_defs)
  have step2: "Repository_update env_ok ''id-1'' ?d2 world_a = (Inr (), ?w)"
    by (simp add: Repository_update_def external_def writable_def columns_def
        keeps_ids_unique_def Let_def sample_defs)
  have stepp: "Repository_update env_ok ''id-1'' ?p world_a
                 = (Inr (), world_a\<lparr>issues := [issue_a\<lparr>projectId := ''P2''\<rparr>]\<rparr>)"
    by (simp add: Repository_update_def external_def writable_def columns_def
        keeps_ids_unique_def Let_def sample_defs)
  have accepted: "\<not> fails env_ok IssueFindOne
                    \<and> \<not> fails env_ok (Publish ''news'' ''news.issue.update'')"
    by (simp add: env_ok_def)
  have found: "find (\<lambda>i. id_Issue i = ''id-1'') (issues ?w) \<noteq> None"
    "find (\<lambda>i. id_Issue i = ''id-1'')
       (issues (world_a\<lparr>issues := [issue_a\<lparr>projectId := ''P2''\<rparr>]\<rparr>)) \<noteq> None"
    by (simp_all add: issue_a_def)
  have keys: "set (map fst ?d1) = set (map fst ?d2)"
    by auto
  have given1: "fst (Repository_update env_ok ''id-1'' ?d1 world_a) = Inr ()
        \<and> find (\<lambda>i. id_Issue i = ''id-1'')
            (issues (snd (Repository_update env_ok ''id-1'' ?d1 world_a))) \<noteq> None
        \<and> \<not> fails env_ok IssueFindOne
        \<and> \<not> fails env_ok (Publish ''news'' ''news.issue.update'')"
    using accepted found(1) by (simp add: step1)
  have given2: "fst (Repository_update env_ok ''id-1'' ?d2 world_a) = Inr ()
        \<and> find (\<lambda>i. id_Issue i = ''id-1'')
            (issues (snd (Repository_update env_ok ''id-1'' ?d2 world_a))) \<noteq> None
        \<and> \<not> fails env_ok IssueFindOne
        \<and> \<not> fails env_ok (Publish ''news'' ''news.issue.update'')"
    using accepted found(1) by (simp add: step2)
  have givenp: "fst (Repository_update env_ok ''id-1'' ?p world_a) = Inr ()
        \<and> find (\<lambda>i. id_Issue i = ''id-1'')
            (issues (snd (Repository_update env_ok ''id-1'' ?p world_a))) \<noteq> None
        \<and> \<not> fails env_ok IssueFindOne
        \<and> \<not> fails env_ok (Publish ''news'' ''news.issue.update'')"
    using accepted found(2) by (simp add: stepp)
  obtain j1 where j1: "fst (update env_ok ''id-1'' ?d1 world_a) = Inr j1"
    using update_scopes_fixed_order [where e = env_ok and k = "''id-1''" and dto = ?d1
        and w = world_a and i = issue_a and w' = world_a and dto' = "[]" and i' = issue_a
        and w'' = world_a] given1
    by blast
  obtain j2 where j2: "fst (update env_ok ''id-1'' ?d2 world_a) = Inr j2"
    using update_scopes_fixed_order [where e = env_ok and k = "''id-1''" and dto = ?d2
        and w = world_a and i = issue_a and w' = world_a and dto' = "[]" and i' = issue_a
        and w'' = world_a] given2
    by blast
  obtain jp where jp: "fst (update env_ok ''id-1'' ?p world_a) = Inr jp"
    using update_scopes_fixed_order [where e = env_ok and k = "''id-1''" and dto = ?p
        and w = world_a and i = issue_a and w' = world_a and dto' = "[]" and i' = issue_a
        and w'' = world_a] givenp
    by blast
  have run1: "update env_ok ''id-1'' ?d1 world_a = (Inr j1, snd (update env_ok ''id-1'' ?d1 world_a))"
    using j1 by (simp add: prod_eq_iff)
  have run2: "update env_ok ''id-1'' ?d2 world_a = (Inr j2, snd (update env_ok ''id-1'' ?d2 world_a))"
    using j2 by (simp add: prod_eq_iff)
  have runp: "update env_ok ''id-1'' ?p world_a = (Inr jp, snd (update env_ok ''id-1'' ?p world_a))"
    using jp by (simp add: prod_eq_iff)
  note all1 = update_scopes_fixed_order [where e = env_ok and k = "''id-1''" and dto = ?d1
      and w = world_a and i = j1 and w' = "snd (update env_ok ''id-1'' ?d1 world_a)"
      and dto' = ?d2 and i' = j2 and w'' = "snd (update env_ok ''id-1'' ?d2 world_a)"]
  note allp = update_scopes_fixed_order [where e = env_ok and k = "''id-1''" and dto = ?p
      and w = world_a and i = jp and w' = "snd (update env_ok ''id-1'' ?p world_a)"
      and dto' = ?p and i' = jp and w'' = "snd (update env_ok ''id-1'' ?p world_a)"]
  from all1 run1 obtain m1 where m1:
    "published (snd (update env_ok ''id-1'' ?d1 world_a)) = published world_a @ [m1]"
    "map_of (payload m1) ''updateScopes'' =
       Some (JScopes ((if has_key ''title'' ?d1 then [TITLE] else []) @
                      (if has_key ''description'' ?d1 then [DESCRIPTION] else []) @
                      (if has_key ''status'' ?d1 then [STATUS] else [])))"
    by blast
  from m1(2) have scopes1: "map_of (payload m1) ''updateScopes'' = Some (JScopes [TITLE, STATUS])"
    by (simp add: has_key_def)
  from all1 run1 run2 keys obtain n1 n2 where n:
    "published (snd (update env_ok ''id-1'' ?d1 world_a)) = published world_a @ [n1]"
    "published (snd (update env_ok ''id-1'' ?d2 world_a)) = published world_a @ [n2]"
    "map_of (payload n1) ''updateScopes'' = map_of (payload n2) ''updateScopes''"
    by blast
  from m1(1) n(1) have "n1 = m1"
    by simp
  with n scopes1 have scopes2: "map_of (payload n2) ''updateScopes'' = Some (JScopes [TITLE, STATUS])"
    by simp
  have nokeys: "\<not> has_key ''title'' ?p \<and> \<not> has_key ''description'' ?p
                  \<and> \<not> has_key ''status'' ?p"
    by (simp add: has_key_def)
  from allp runp nokeys obtain mp where mp:
    "published (snd (update env_ok ''id-1'' ?p world_a)) = published world_a @ [mp]"
    "routingKey mp = ''news.issue.update''"
    "map_of (payload mp) ''updateScopes'' = Some (JScopes [])"
    by blast
  have empty: "update env_ok ''id-1'' [] world_a = (Inl (Rejected IssueUpdate), world_a)"
    using all1 by (simp add: prod_eq_iff)
  from m1(1) n(2) scopes1 scopes2 jp mp empty show ?thesis
    by blast
qed

text \<open>
  \<noindent>\<^bold>\<open>C10.\<close> \<open>findAll\<close>, \<open>findAllForProject\<close>, \<open>findOne\<close> and \<open>findAllComments\<close> leave the
  state as it was, for every input and whatever the collaborators answer: no row of
  either table changes and no message is published.
\<close>

theorem reads_change_nothing:
  "snd (findAll e w) = w
   \<and> snd (findAllForProject e pid w) = w
   \<and> snd (findOne e k w) = w
   \<and> snd (findAllComments e w) = w"
  by (simp add: findAll_def findAllForProject_def findOne_unfold findAllComments_def
      async_defs repo_defs split: option.splits)

end
